theory Spec2Isabelle
  imports Main Complex_Main
begin

section \<open>JavaScript values and strings\<close>

text \<open>
  The guardrail helpers are written against untyped values (\<open>content: unknown\<close>,
  \<open>details: unknown\<close>), so the model carries a datatype of JavaScript data values.
  A number is a finite double (read as the real it denotes), NaN or an infinity; the
  functions below only compare, clamp and test numbers, which is exact on doubles.
  Objects are association lists of own data properties in insertion order; functions,
  symbols, getters and cyclic structures are outside the data model.
  A string is a list of 8-bit code units.
\<close>

datatype jsnum = Fin real | NaN | PosInf | NegInf

datatype jsval =
    JUndefined
  | JNull
  | JBool bool
  | JNum jsnum
  | JStr string
  | JBigInt int
  | JArr "jsval list"
  | JObj "(string \<times> jsval) list"

datatype js_error = TypeError | SyntaxError | Error string

text \<open>\<open>Number.isFinite\<close>.\<close>

fun isFinite :: "jsnum \<Rightarrow> bool" where
  "isFinite (Fin r) = True"
| "isFinite NaN = False"
| "isFinite PosInf = False"
| "isFinite NegInf = False"

text \<open>Truthiness (\<open>ToBoolean\<close>): what \<open>!v\<close>, \<open>v &&\<close> and \<open>filter(Boolean)\<close> test.\<close>

fun truthy :: "jsval \<Rightarrow> bool" where
  "truthy JUndefined = False"
| "truthy JNull = False"
| "truthy (JBool b) = b"
| "truthy (JNum (Fin r)) = (r \<noteq> 0)"
| "truthy (JNum NaN) = False"
| "truthy (JNum PosInf) = True"
| "truthy (JNum NegInf) = True"
| "truthy (JStr s) = (s \<noteq> [])"
| "truthy (JBigInt i) = (i \<noteq> 0)"
| "truthy (JArr xs) = True"
| "truthy (JObj kvs) = True"

text \<open>\<open>typeof v === "object"\<close> (true of \<open>null\<close> and of arrays as well).\<close>

fun typeof_object :: "jsval \<Rightarrow> bool" where
  "typeof_object JNull = True"
| "typeof_object (JArr xs) = True"
| "typeof_object (JObj kvs) = True"
| "typeof_object v = False"

text \<open>
  Property read \<open>v.k\<close>: a TypeError on \<open>null\<close> and \<open>undefined\<close>, the own property of
  an object, \<open>undefined\<close> otherwise. The names the code reads (\<open>content\<close>, \<open>details\<close>,
  \<open>type\<close>, \<open>text\<close>, \<open>violation\<close>, ...) are never prototype properties.
  \<open>get_opt\<close> is the optional chain \<open>v?.k\<close>.
\<close>

fun get_prop :: "jsval \<Rightarrow> string \<Rightarrow> js_error + jsval" where
  "get_prop JUndefined k = Inl TypeError"
| "get_prop JNull k = Inl TypeError"
| "get_prop (JObj kvs) k = Inr (case map_of kvs k of None \<Rightarrow> JUndefined | Some v \<Rightarrow> v)"
| "get_prop v k = Inr JUndefined"

fun get_opt :: "jsval \<Rightarrow> string \<Rightarrow> jsval" where
  "get_opt (JObj kvs) k = (case map_of kvs k of None \<Rightarrow> JUndefined | Some v \<Rightarrow> v)"
| "get_opt v k = JUndefined"

text \<open>
  Assignment of one property in an object literal built by spread
  (\<open>{ ...obj, k: v }\<close>): an existing key keeps its position, a new key goes last.
\<close>

fun set_prop :: "(string \<times> jsval) list \<Rightarrow> string \<Rightarrow> jsval \<Rightarrow> (string \<times> jsval) list" where
  "set_prop [] k v = [(k, v)]"
| "set_prop ((k', v') # kvs) k v =
     (if k' = k then (k, v) # kvs else (k', v') # set_prop kvs k v)"

text \<open>
  The own enumerable properties that an object spread \<open>{ ...v }\<close> copies: those of an
  object, the indexed elements of an array, nothing for a primitive. (Strings spread
  their characters; no tool result or details value reaching a spread here is a string
  that matters to a claim, and the case is modelled as written.)
\<close>

fun nat_to_digits :: "nat \<Rightarrow> nat \<Rightarrow> string" where
  "nat_to_digits 0 n = []"
| "nat_to_digits (Suc fuel) n =
     (if n < 10 then [char_of (48 + n)]
      else nat_to_digits fuel (n div 10) @ [char_of (48 + n mod 10)])"

definition nat_to_string :: "nat \<Rightarrow> string" where
  "nat_to_string n = nat_to_digits (Suc n) n"

fun spread_props :: "jsval \<Rightarrow> (string \<times> jsval) list" where
  "spread_props (JObj kvs) = kvs"
| "spread_props (JArr xs) = zip (map nat_to_string [0..<length xs]) xs"
| "spread_props (JStr s) = zip (map nat_to_string [0..<length s]) (map (\<lambda>c. JStr [c]) s)"
| "spread_props v = []"

subsection \<open>Strings\<close>

text \<open>
  White space and line terminators, as \<open>String.prototype.trim\<close> and the regular
  expression class \<open>\s\<close> see them, within the 8-bit range: TAB, LF, VT, FF, CR, SPACE
  and NBSP.
\<close>

definition is_space :: "char \<Rightarrow> bool" where
  "is_space c \<longleftrightarrow> of_char c \<in> {9::nat, 10, 11, 12, 13, 32, 160}"

definition trim :: "string \<Rightarrow> string" where
  "trim s = rev (dropWhile is_space (rev (dropWhile is_space s)))"



text \<open>\<open>parts.join(sep)\<close>.\<close>

fun join :: "string \<Rightarrow> string list \<Rightarrow> string" where
  "join sep [] = []"
| "join sep [x] = x"
| "join sep (x # y # ys) = x @ sep @ join sep (y # ys)"





subsection \<open>Exceptions\<close>

text \<open>
  A computation that may throw returns \<open>Inl\<close> of the error. \<open>bind_err\<close> sequences
  two of them; \<open>map_err\<close> is \<open>Array.prototype.map\<close> with a callback that may throw.
\<close>

definition bind_err :: "js_error + 'a \<Rightarrow> ('a \<Rightarrow> js_error + 'b) \<Rightarrow> js_error + 'b" where
  "bind_err m f = (case m of Inl e \<Rightarrow> Inl e | Inr v \<Rightarrow> f v)"

fun map_err :: "('a \<Rightarrow> js_error + 'b) \<Rightarrow> 'a list \<Rightarrow> js_error + 'b list" where
  "map_err f [] = Inr []"
| "map_err f (x # xs) =
     bind_err (f x) (\<lambda>y. bind_err (map_err f xs) (\<lambda>ys. Inr (y # ys)))"

section \<open>Shared guardrail utilities (guardrails-utils.ts)\<close>

subsection \<open>Types\<close>

datatype GuardrailStage = before_request | after_response | before_tool_call | after_tool_call

datatype guard_mode = block | monitor

datatype block_mode = replace | append

text \<open>\<open>BaseStageConfig\<close>: every field is optional (\<open>None\<close> is an absent field).\<close>

record BaseStageConfig =
  enabled :: "bool option"
  mode :: "guard_mode option"
  blockMode :: "block_mode option"
  includeHistory :: "bool option"

text \<open>
  The \<open>stages\<close> object of a guardrail configuration: a JavaScript object whose keys
  are \<open>beforeRequest\<close>, \<open>beforeToolCall\<close>, \<open>afterToolCall\<close> and \<open>afterResponse\<close>,
  each optional.
\<close>

type_synonym 'c stages = "string \<rightharpoonup> 'c"


text \<open>An \<open>AgentMessage\<close> as the helpers read it: a role and a content value.\<close>

record AgentMessage =
  msg_role :: string
  msg_content :: jsval

subsection \<open>Content extraction\<close>

text \<open>The callback of \<open>content.map\<close> in \<open>extractTextFromContent\<close>.\<close>

definition block_text :: "jsval \<Rightarrow> js_error + string" where
  "block_text item =
     (if \<not> truthy item \<or> \<not> typeof_object item then Inr []
      else bind_err (get_prop item ''type'') (\<lambda>ty.
           if truthy ty \<and> ty \<noteq> JStr ''text'' then Inr []
           else bind_err (get_prop item ''text'') (\<lambda>tx.
                case tx of JStr s \<Rightarrow> Inr s | _ \<Rightarrow> Inr [])))"

definition extractTextFromContent :: "jsval \<Rightarrow> js_error + string" where
  "extractTextFromContent content =
     (case content of
        JStr s \<Rightarrow> Inr s
      | JArr items \<Rightarrow>
          bind_err (map_err block_text items) (\<lambda>texts.
            Inr (join [CHR 0x0A] (filter (\<lambda>t. t \<noteq> []) texts)))
      | _ \<Rightarrow> Inr [])"

text \<open>
  \<open>JSON.stringify\<close> is a host builtin and a parameter of the model: \<open>Inl\<close> when it
  throws (a BigInt, a cycle). \<open>try_stringify\<close> is the source's
  \<open>try { return JSON.stringify(v) } catch { return "" }\<close>.
\<close>

type_synonym stringify = "jsval \<Rightarrow> js_error + string"

definition try_stringify :: "stringify \<Rightarrow> jsval \<Rightarrow> js_error + string" where
  "try_stringify js v = (case js v of Inl e \<Rightarrow> Inr [] | Inr s \<Rightarrow> Inr s)"

definition extractToolResultText :: "stringify \<Rightarrow> jsval \<Rightarrow> js_error + string" where
  "extractToolResultText js result =
     (if result = JNull \<or> result = JUndefined then Inr []
      else bind_err (extractTextFromContent (get_opt result ''content'')) (\<lambda>t.
           let contentText = trim t
           in if contentText \<noteq> [] then Inr contentText
              else if get_opt result ''details'' \<noteq> JUndefined
                   then try_stringify js (get_opt result ''details'')
                   else try_stringify js result))"



subsection \<open>Tool result manipulation\<close>

definition text_block :: "string \<Rightarrow> jsval" where
  "text_block t = JObj [(''type'', JStr ''text''), (''text'', JStr t)]"

definition appendWarningToToolResult :: "jsval \<Rightarrow> string \<Rightarrow> js_error + jsval" where
  "appendWarningToToolResult result warning =
     bind_err (get_prop result ''content'') (\<lambda>c.
       let content = (case c of JArr blocks \<Rightarrow> blocks | _ \<Rightarrow> []) @ [text_block warning]
       in Inr (JObj (set_prop (spread_props result) ''content'' (JArr content))))"

text \<open>\<open>"k" in v\<close> for an object operand as the source guards it.\<close>

fun has_key :: "jsval \<Rightarrow> string \<Rightarrow> bool" where
  "has_key (JObj kvs) k = (k \<in> set (map fst kvs))"
| "has_key v k = False"

definition replaceToolResultWithWarning :: "jsval \<Rightarrow> string \<Rightarrow> jsval" where
  "replaceToolResultWithWarning result warning =
     (let baseDetails =
            (if truthy result \<and> typeof_object result \<and> has_key result ''details''
                \<and> truthy (get_opt result ''details'')
                \<and> typeof_object (get_opt result ''details'')
             then Some (get_opt result ''details'') else None);
          details =
            (case baseDetails of
               Some d \<Rightarrow> JObj (set_prop (spread_props d) ''guardrailWarning'' (JStr warning))
             | None \<Rightarrow> JObj [(''guardrailWarning'', JStr warning)])
      in JObj [(''content'', JArr [text_block warning]), (''details'', details)])"


subsection \<open>Stage configuration\<close>

definition isStageEnabled :: "'a BaseStageConfig_scheme option \<Rightarrow> bool" where
  "isStageEnabled stage =
     (case stage of None \<Rightarrow> False | Some c \<Rightarrow> enabled c \<noteq> Some False)"

definition resolveBlockMode :: "GuardrailStage \<Rightarrow> 'a BaseStageConfig_scheme option \<Rightarrow> block_mode" where
  "resolveBlockMode stage stageCfg =
     (case (case stageCfg of None \<Rightarrow> None | Some c \<Rightarrow> blockMode c) of
        Some m \<Rightarrow> m
      | None \<Rightarrow> if stage = after_tool_call then append else replace)"

definition resolveStageConfig :: "'c stages option \<Rightarrow> GuardrailStage \<Rightarrow> 'c option" where
  "resolveStageConfig stgs stage =
     (case stgs of
        None \<Rightarrow> None
      | Some st \<Rightarrow>
          (case stage of
             before_request \<Rightarrow> st ''beforeRequest''
           | before_tool_call \<Rightarrow> st ''beforeToolCall''
           | after_tool_call \<Rightarrow> st ''afterToolCall''
           | after_response \<Rightarrow> st ''afterResponse''))"

subsection \<open>Model invocation utilities\<close>


section \<open>GPT-OSS-Safeguard plugin (extensions/gpt-oss-safeguard/index.ts): response parsing\<close>










section \<open>Llama Guard plugin (extensions/llamaguard/index.ts): response parsing\<close>





section \<open>Gray Swan plugin: stage options and their precedence\<close>

text \<open>
  \<open>GrayswanStageConfig\<close> extends \<open>BaseStageConfig\<close>; the plugin configuration carries an
  instance-level \<open>violationThreshold\<close> as well.
\<close>

record GrayswanStageConfig = BaseStageConfig +
  violationThreshold :: "jsnum option"
  blockOnMutation :: "bool option"
  blockOnIpi :: "bool option"

record GrayswanGuardrailConfig =
  gs_enabled :: "bool option"
  gs_apiKey :: "string option"
  gs_apiBase :: "string option"
  gs_policyId :: "string option"
  gs_categories :: "(string \<times> string) list option"
  gs_reasoningMode :: "string option"
  gs_violationThreshold :: "jsnum option"
  gs_timeoutMs :: "jsnum option"
  gs_failOpen :: "bool option"
  gs_stages :: "GrayswanStageConfig stages option"

definition GRAYSWAN_DEFAULT_THRESHOLD :: real where
  "GRAYSWAN_DEFAULT_THRESHOLD = 1 / 2"

text \<open>
  \<open>stage?.violationThreshold ?? cfg.violationThreshold\<close>, then the finiteness test and
  the clamp \<open>Math.min(1, Math.max(0, value))\<close>. The result is always a finite number.
\<close>

definition resolveGrayswanThreshold ::
  "GrayswanGuardrailConfig \<Rightarrow> GrayswanStageConfig option \<Rightarrow> real" where
  "resolveGrayswanThreshold cfg stage =
     (let v = (case (case stage of None \<Rightarrow> None | Some s \<Rightarrow> violationThreshold s) of
                 Some x \<Rightarrow> Some x
               | None \<Rightarrow> gs_violationThreshold cfg)
      in case v of
           Some (Fin r) \<Rightarrow> min 1 (max 0 r)
         | _ \<Rightarrow> GRAYSWAN_DEFAULT_THRESHOLD)"




section \<open>Stage events, handler results and the host\<close>




record after_response_event =
  ev_assistantTexts :: "string list"
  ev_ar_messages :: "AgentMessage list"
  ev_lastAssistant :: "AgentMessage option"


text \<open>
  Effects are explicit: a handler takes the world (the plugin logger's lines so far and
  the backend requests made so far) and returns the new one with its result. A handler
  that throws returns \<open>Inl\<close>.
\<close>

datatype log_level = Debug | Info | Warn







definition assistant_text :: "after_response_event \<Rightarrow> js_error + string" where
  "assistant_text event =
     (let joined = trim (join [CHR 0x0A] (ev_assistantTexts event))
      in if joined \<noteq> [] then Inr joined
         else (case ev_lastAssistant event of
                 Some m \<Rightarrow> bind_err (extractTextFromContent (msg_content m)) (\<lambda>t. Inr (trim t))
               | None \<Rightarrow> Inr []))"

section \<open>GPT-OSS-Safeguard plugin: evaluator call and stage handlers\<close>

















section \<open>Llama Guard plugin: evaluator call and stage handlers\<close>

















section \<open>Gray Swan plugin: evaluator call and stage handlers\<close>





































section \<open>Specification-level notions\<close>

text \<open>
  The definitions of this section are not translations of source functions: they name
  the notions the properties below are stated with.
\<close>

subsection \<open>Content blocks\<close>

text \<open>
  What \<open>extractTextFromContent\<close> treats as a text block: an object (or array) whose
  \<open>type\<close> is \<open>"text"\<close>, absent or otherwise falsy; and the block's \<open>text\<close> field
  when it is a string.
\<close>

definition is_text_like :: "jsval \<Rightarrow> bool" where
  "is_text_like b \<longleftrightarrow>
     truthy b \<and> typeof_object b \<and>
     (\<not> truthy (get_opt b ''type'') \<or> get_opt b ''type'' = JStr ''text'')"

definition text_field :: "jsval \<Rightarrow> string" where
  "text_field b = (case get_opt b ''text'' of JStr s \<Rightarrow> s | _ \<Rightarrow> [])"

text \<open>
  The specification's reading of \<open>extractText\<close>, word for word: a string is returned
  as it is; of a sequence of blocks, the \<open>text\<close> field of every block whose type is
  \<open>"text"\<close> or which has no type, joined by newline; the empty string otherwise.
\<close>

definition is_text_block :: "jsval \<Rightarrow> bool" where
  "is_text_block b \<longleftrightarrow>
     (case b of
        JObj kvs \<Rightarrow> map_of kvs ''type'' = None \<or> map_of kvs ''type'' = Some (JStr ''text'')
      | _ \<Rightarrow> False)"

definition extractText_spec :: "jsval \<Rightarrow> string" where
  "extractText_spec content =
     (case content of
        JStr s \<Rightarrow> s
      | JArr items \<Rightarrow> join [CHR 0x0A] (map text_field (filter is_text_block items))
      | _ \<Rightarrow> [])"

subsection \<open>Tool results\<close>

text \<open>
  The text that \<open>extractTextFromContent\<close> yields for the \<open>content\<close> of a tool
  result, as a total function (see \<open>extractTextFromContent_Inr\<close> below).
\<close>

definition content_text :: "jsval \<Rightarrow> string" where
  "content_text result =
     (case get_opt result ''content'' of
        JStr s \<Rightarrow> s
      | JArr items \<Rightarrow>
          join [CHR 0x0A] (filter (\<lambda>t. t \<noteq> []) (map text_field (filter is_text_like items)))
      | _ \<Rightarrow> [])"

text \<open>
  A tool result that carries an object-typed \<open>details\<close> value (an object or an array:
  both are truthy and of \<open>typeof\<close> \<open>"object"\<close>).
\<close>

definition has_object_details :: "jsval \<Rightarrow> bool" where
  "has_object_details result \<longleftrightarrow>
     (case result of
        JObj kvs \<Rightarrow>
          (case map_of kvs ''details'' of
             Some (JObj d) \<Rightarrow> True
           | Some (JArr d) \<Rightarrow> True
           | _ \<Rightarrow> False)
      | _ \<Rightarrow> False)"

text \<open>The content blocks of a tool result: the elements of \<open>content\<close> when it is an array.\<close>

definition content_blocks :: "jsval \<Rightarrow> jsval list" where
  "content_blocks result = (case get_opt result ''content'' of JArr blocks \<Rightarrow> blocks | _ \<Rightarrow> [])"

subsection \<open>Stage configuration\<close>

text \<open>
  The key of the \<open>stages\<close> object that configures a stage, as the configuration
  surface names them; and the empty stage entry \<open>{}\<close>.
\<close>

definition stage_key :: "GuardrailStage \<Rightarrow> string" where
  "stage_key stage =
     (case stage of
        before_request \<Rightarrow> ''beforeRequest''
      | before_tool_call \<Rightarrow> ''beforeToolCall''
      | after_tool_call \<Rightarrow> ''afterToolCall''
      | after_response \<Rightarrow> ''afterResponse'')"

definition empty_stage_config :: BaseStageConfig where
  "empty_stage_config =
     \<lparr>enabled = None, mode = None, blockMode = None, includeHistory = None\<rparr>"

subsection \<open>Gray Swan thresholds\<close>

text \<open>
  The stage-level threshold of an optional stage configuration, the clamp to the unit
  interval, and a configuration with every field absent.
\<close>

definition stage_threshold :: "GrayswanStageConfig option \<Rightarrow> jsnum option" where
  "stage_threshold stage = (case stage of None \<Rightarrow> None | Some s \<Rightarrow> violationThreshold s)"

definition clamp01 :: "real \<Rightarrow> real" where
  "clamp01 r = (if r < 0 then 0 else if 1 < r then 1 else r)"

definition empty_grayswan_stage :: GrayswanStageConfig where
  "empty_grayswan_stage =
     \<lparr>enabled = None, mode = None, blockMode = None, includeHistory = None,
      violationThreshold = None, blockOnMutation = None, blockOnIpi = None\<rparr>"

definition empty_grayswan_config :: GrayswanGuardrailConfig where
  "empty_grayswan_config =
     \<lparr>gs_enabled = None, gs_apiKey = None, gs_apiBase = None, gs_policyId = None,
      gs_categories = None, gs_reasoningMode = None, gs_violationThreshold = None,
      gs_timeoutMs = None, gs_failOpen = None, gs_stages = None\<rparr>"

subsection \<open>Unparseable classifier responses\<close>



subsection \<open>Failure policy of the stage handlers\<close>





subsection \<open>Sample configurations and events\<close>











subsection \<open>Focal content of the \<open>after_response\<close> stage\<close>








section \<open>Properties of the shared utilities\<close>

subsection \<open>Content extraction\<close>

lemma get_prop_get_opt:
  "v \<noteq> JNull \<Longrightarrow> v \<noteq> JUndefined \<Longrightarrow> get_prop v k = Inr (get_opt v k)"
  by (cases v) simp_all

text \<open>
  The \<open>map\<close> callback never throws: its property reads are guarded by the
  \<open>!item || typeof item !== "object"\<close> test.
\<close>

lemma block_text_total:
  "block_text item = Inr (if is_text_like item then text_field item else [])"
proof (cases "truthy item \<and> typeof_object item")
  case True
  then have nn: "item \<noteq> JNull" "item \<noteq> JUndefined" by auto
  show ?thesis
    using True
    by (auto simp: block_text_def is_text_like_def text_field_def bind_err_def
        get_prop_get_opt[OF nn] split: jsval.splits)
next
  case False
  then show ?thesis by (auto simp: block_text_def is_text_like_def)
qed

lemma map_err_block_text:
  "map_err block_text items = Inr (map (\<lambda>b. if is_text_like b then text_field b else []) items)"
  by (induction items) (simp_all add: block_text_total bind_err_def)

lemma filter_nonempty_texts:
  "filter (\<lambda>t. t \<noteq> []) (map (\<lambda>b. if is_text_like b then text_field b else []) items)
     = filter (\<lambda>t. t \<noteq> []) (map text_field (filter is_text_like items))"
  by (induction items) simp_all

lemma extractTextFromContent_Inr:
  "extractTextFromContent content =
     Inr (case content of
            JStr s \<Rightarrow> s
          | JArr items \<Rightarrow>
              join [CHR 0x0A] (filter (\<lambda>t. t \<noteq> []) (map text_field (filter is_text_like items)))
          | _ \<Rightarrow> [])"
  by (cases content)
     (simp_all add: extractTextFromContent_def map_err_block_text bind_err_def
        filter_nonempty_texts)

text \<open>
  C9 (as amended). \<open>extractTextFromContent\<close> never raises (its result is always
  \<open>Inr\<close>); a plain string is returned unchanged; for an array it is the newline-joined
  sequence, in order, of the non-empty \<open>text\<close> fields of the blocks whose type is
  \<open>"text"\<close>, absent or falsy, every other item being skipped; any other content gives
  the empty string. Blocks whose text is empty contribute nothing, not even a separator.
\<close>

theorem extractTextFromContent_text:
  "extractTextFromContent content =
     Inr (case content of
            JStr s \<Rightarrow> s
          | JArr items \<Rightarrow>
              join [CHR 0x0A] (filter (\<lambda>t. t \<noteq> []) (map text_field (filter is_text_like items)))
          | _ \<Rightarrow> [])"
  by (rule extractTextFromContent_Inr)

theorem extractTextFromContent_text_witness:
  "extractTextFromContent
     (JArr [text_block ''a'', JObj [(''type'', JStr ''image''), (''url'', JStr ''u'')],
            text_block '''', JObj [(''text'', JStr ''b'')]]) = Inr ''a\<newline>b''"
  using extractTextFromContent_text
    [of "JArr [text_block ''a'', JObj [(''type'', JStr ''image''), (''url'', JStr ''u'')],
            text_block '''', JObj [(''text'', JStr ''b'')]]"]
  by (simp add: text_block_def is_text_like_def text_field_def)

text \<open>
  C9 as stated fails on a text block with an empty text: the specification's reading
  joins three text fields, the code drops the empty one before joining.
\<close>

theorem extractTextFromContent_empty_text_counterexample:
  "extractTextFromContent (JArr [text_block ''a'', text_block '''', text_block ''b''])
     = Inr ''a\<newline>b''
   \<and> extractText_spec (JArr [text_block ''a'', text_block '''', text_block ''b''])
     = ''a\<newline>\<newline>b''
   \<and> extractTextFromContent (JArr [text_block ''a'', text_block '''', text_block ''b''])
     \<noteq> Inr (extractText_spec (JArr [text_block ''a'', text_block '''', text_block ''b'']))"
  by (simp add: extractTextFromContent_def block_text_def bind_err_def text_block_def
      extractText_spec_def is_text_block_def text_field_def)

subsection \<open>Tool result text\<close>

text \<open>
  C7. \<open>extractToolResultText\<close> never raises: its result is always \<open>Inr\<close>. It is the
  empty string for a \<open>null\<close> or \<open>undefined\<close> result; otherwise the (trimmed) text
  extracted from \<open>result.content\<close> when that does not trim to empty; otherwise the JSON
  serialization of \<open>result.details\<close> when \<open>details\<close> is there; otherwise the JSON
  serialization of the whole result; and a serialization that throws degrades to the
  empty string. The serializer is arbitrary: the statement holds for every behaviour of
  \<open>JSON.stringify\<close>.
\<close>

theorem extractToolResultText_fallback:
  "extractToolResultText js result =
     Inr (if result = JNull \<or> result = JUndefined then []
          else if trim (content_text result) \<noteq> [] then trim (content_text result)
          else if get_opt result ''details'' \<noteq> JUndefined
               then (case js (get_opt result ''details'') of Inr s \<Rightarrow> s | Inl e \<Rightarrow> [])
               else (case js result of Inr s \<Rightarrow> s | Inl e \<Rightarrow> []))"
  by (simp add: extractToolResultText_def extractTextFromContent_Inr bind_err_def
      content_text_def try_stringify_def Let_def split: sum.splits)

text \<open>
  The fallback chain at the repository's own test inputs: \<open>details\<close> serialized when
  the content is empty; a throwing serializer degrading to the empty string; content
  text preferred (and trimmed) when present.
\<close>

theorem extractToolResultText_fallback_witness:
  "extractToolResultText (\<lambda>v. if v = JObj [(''key'', JStr ''value'')] then Inr ''{\"key\":\"value\"}'' else Inl TypeError)
     (JObj [(''content'', JArr []), (''details'', JObj [(''key'', JStr ''value'')])])
     = Inr ''{\"key\":\"value\"}''
   \<and> extractToolResultText (\<lambda>v. Inl TypeError)
     (JObj [(''content'', JArr [text_block ''  '']), (''big'', JBigInt 1)]) = Inr []
   \<and> extractToolResultText (\<lambda>v. Inl TypeError)
     (JObj [(''content'', JArr [text_block '' tool output '']), (''big'', JBigInt 1)]) = Inr ''tool output''"
  using extractToolResultText_fallback
    [of "\<lambda>v. if v = JObj [(''key'', JStr ''value'')] then Inr ''{\"key\":\"value\"}'' else Inl TypeError"
        "JObj [(''content'', JArr []), (''details'', JObj [(''key'', JStr ''value'')])]"]
   extractToolResultText_fallback
    [of "\<lambda>v. Inl TypeError" "JObj [(''content'', JArr [text_block ''  '']), (''big'', JBigInt 1)]"]
   extractToolResultText_fallback
    [of "\<lambda>v. Inl TypeError" "JObj [(''content'', JArr [text_block '' tool output '']), (''big'', JBigInt 1)]"]
  by (simp add: content_text_def text_block_def is_text_like_def text_field_def trim_def is_space_def)

subsection \<open>Tool result manipulation\<close>

lemma map_of_set_prop:
  "map_of (set_prop kvs k v) k' = (if k' = k then Some v else map_of kvs k')"
  by (induction kvs) auto

lemma has_object_details_iff:
  "has_object_details result \<longleftrightarrow>
     truthy result \<and> typeof_object result \<and> has_key result ''details''
       \<and> truthy (get_opt result ''details'') \<and> typeof_object (get_opt result ''details'')"
proof (cases result)
  case (JObj kvs)
  have "map_of kvs ''details'' \<noteq> None \<Longrightarrow> ''details'' \<in> set (map fst kvs)"
    by (metis map_of_eq_None_iff set_map)
  then show ?thesis
    using JObj
    by (auto simp: has_object_details_def split: jsval.splits option.splits)
qed (simp_all add: has_object_details_def)

text \<open>
  C2 (as amended). \<open>replaceToolResultWithWarning\<close> returns an object with exactly the
  fields \<open>content\<close> and \<open>details\<close>: the content is the single text block holding the
  warning, whatever the original content was; \<open>details.guardrailWarning\<close> is the
  warning; and every other key of \<open>details\<close> is a key of the original object-typed
  \<open>details\<close> with its original value, or absent when the original result has no
  object-typed \<open>details\<close>.
\<close>

theorem replaceToolResultWithWarning_result:
  "\<exists>details.
     replaceToolResultWithWarning result warning
       = JObj [(''content'', JArr [text_block warning]), (''details'', JObj details)]
     \<and> map_of details ''guardrailWarning'' = Some (JStr warning)
     \<and> (\<forall>k. k \<noteq> ''guardrailWarning'' \<longrightarrow>
            map_of details k =
              (if has_object_details result
               then map_of (spread_props (get_opt result ''details'')) k else None))"
  by (simp add: replaceToolResultWithWarning_def has_object_details_iff[symmetric]
      map_of_set_prop)


theorem replaceToolResultWithWarning_result_witness:
  "replaceToolResultWithWarning (JObj [(''content'', JArr [text_block ''original''])]) ''warning''
     = JObj [(''content'', JArr [text_block ''warning'']),
             (''details'', JObj [(''guardrailWarning'', JStr ''warning'')])]"
proof -
  from replaceToolResultWithWarning_result
    [of "JObj [(''content'', JArr [text_block ''original''])]" "''warning''"]
  obtain details where
    "replaceToolResultWithWarning (JObj [(''content'', JArr [text_block ''original''])]) ''warning''
       = JObj [(''content'', JArr [text_block ''warning'']), (''details'', JObj details)]"
    by blast
  then show ?thesis
    by (simp add: replaceToolResultWithWarning_def)
qed

text \<open>
  C2 as stated fails: the original \<open>details\<close> keys survive the replacement (the
  repository's test "includes guardrailWarning in details" expects exactly this).
\<close>

theorem replaceToolResultWithWarning_keeps_details_counterexample:
  "replaceToolResultWithWarning
     (JObj [(''content'', JArr []), (''details'', JObj [(''existing'', JStr ''data'')])])
     ''warning''
   = JObj [(''content'', JArr [text_block ''warning'']),
           (''details'', JObj [(''existing'', JStr ''data''),
                               (''guardrailWarning'', JStr ''warning'')])]
   \<and> replaceToolResultWithWarning
     (JObj [(''content'', JArr []), (''details'', JObj [(''existing'', JStr ''data'')])])
     ''warning''
   \<noteq> JObj [(''content'', JArr [text_block ''warning'']),
           (''details'', JObj [(''guardrailWarning'', JStr ''warning'')])]"
  by (simp add: replaceToolResultWithWarning_def)

text \<open>
  C3 (as amended). For a tool result that is not \<open>null\<close> or \<open>undefined\<close>,
  \<open>appendWarningToToolResult\<close> returns an object whose \<open>content\<close> is the original
  content blocks, in order, followed by exactly one new text block holding the warning,
  and whose every other property, \<open>details\<close> included, is the original one: no
  \<open>guardrailWarning\<close> key is added to \<open>details\<close>.
\<close>

theorem appendWarningToToolResult_result:
  assumes "result \<noteq> JNull" and "result \<noteq> JUndefined"
  shows "\<exists>r. appendWarningToToolResult result warning = Inr (JObj r)
     \<and> map_of r ''content'' = Some (JArr (content_blocks result @ [text_block warning]))
     \<and> (\<forall>k. k \<noteq> ''content'' \<longrightarrow> map_of r k = map_of (spread_props result) k)"
proof -
  show ?thesis
    using assms
    by (simp add: appendWarningToToolResult_def get_prop_get_opt bind_err_def
        content_blocks_def map_of_set_prop Let_def)
qed

theorem appendWarningToToolResult_result_witness:
  "appendWarningToToolResult
     (JObj [(''content'', JArr [text_block ''original'']), (''isError'', JBool False)]) ''warning''
   = Inr (JObj [(''content'', JArr [text_block ''original'', text_block ''warning'']),
                (''isError'', JBool False)])"
proof -
  have "JObj [(''content'', JArr [text_block ''original'']), (''isError'', JBool False)] \<noteq> JNull"
    and "JObj [(''content'', JArr [text_block ''original'']), (''isError'', JBool False)] \<noteq> JUndefined"
    by simp_all
  from appendWarningToToolResult_result[OF this, of "''warning''"]
  obtain r where
    "appendWarningToToolResult
       (JObj [(''content'', JArr [text_block ''original'']), (''isError'', JBool False)]) ''warning''
     = Inr (JObj r)"
    by blast
  then show ?thesis
    by (simp add: appendWarningToToolResult_def bind_err_def)
qed

text \<open>
  C3 as stated fails: with an object-typed \<open>details\<close>, the appended result carries
  \<open>details\<close> unchanged, without a \<open>guardrailWarning\<close> key.
\<close>

theorem appendWarningToToolResult_details_counterexample:
  "appendWarningToToolResult
     (JObj [(''content'', JArr [text_block ''original'']),
            (''details'', JObj [(''existing'', JStr ''data'')])]) ''warning''
   = Inr (JObj [(''content'', JArr [text_block ''original'', text_block ''warning'']),
                (''details'', JObj [(''existing'', JStr ''data'')])])
   \<and> get_opt (JObj [(''existing'', JStr ''data'')]) ''guardrailWarning'' = JUndefined
   \<and> appendWarningToToolResult
     (JObj [(''content'', JArr [text_block ''original'']),
            (''details'', JObj [(''existing'', JStr ''data'')])]) ''warning''
   \<noteq> Inr (JObj [(''content'', JArr [text_block ''original'', text_block ''warning'']),
                (''details'', JObj [(''existing'', JStr ''data''),
                                    (''guardrailWarning'', JStr ''warning'')])])"
  by (simp add: appendWarningToToolResult_def bind_err_def)

subsection \<open>Stage configuration\<close>

text \<open>
  C4. \<open>resolveBlockMode\<close> returns the configured \<open>blockMode\<close> when it is set; when it
  is not set (or there is no stage configuration at all) it returns \<open>append\<close> if and only
  if the stage is \<open>after_tool_call\<close>, and \<open>replace\<close> for every other stage.
\<close>

theorem resolveBlockMode_default:
  "(\<forall>m. blockMode c = Some m \<longrightarrow> resolveBlockMode stage (Some c) = m)
   \<and> (blockMode c = None \<longrightarrow>
        (resolveBlockMode stage (Some c) = append \<longleftrightarrow> stage = after_tool_call)
        \<and> (stage \<noteq> after_tool_call \<longrightarrow> resolveBlockMode stage (Some c) = replace))
   \<and> (resolveBlockMode stage None = append \<longleftrightarrow> stage = after_tool_call)
   \<and> (stage \<noteq> after_tool_call \<longrightarrow> resolveBlockMode stage None = replace)"
  by (simp add: resolveBlockMode_def)

theorem resolveBlockMode_default_witness:
  "resolveBlockMode after_tool_call (Some empty_stage_config) = append
   \<and> resolveBlockMode before_request (Some empty_stage_config) = replace
   \<and> resolveBlockMode before_tool_call (Some empty_stage_config) = replace
   \<and> resolveBlockMode after_response None = replace
   \<and> resolveBlockMode after_tool_call None = append
   \<and> resolveBlockMode before_request (Some (empty_stage_config\<lparr>blockMode := Some append\<rparr>)) = append
   \<and> resolveBlockMode after_tool_call (Some (empty_stage_config\<lparr>blockMode := Some replace\<rparr>)) = replace"
  using resolveBlockMode_default[of empty_stage_config after_tool_call]
    resolveBlockMode_default[of empty_stage_config before_request]
    resolveBlockMode_default[of empty_stage_config before_tool_call]
    resolveBlockMode_default[of empty_stage_config after_response]
    resolveBlockMode_default[of "empty_stage_config\<lparr>blockMode := Some append\<rparr>" before_request]
    resolveBlockMode_default[of "empty_stage_config\<lparr>blockMode := Some replace\<rparr>" after_tool_call]
  by (auto simp: empty_stage_config_def)

text \<open>
  C5. \<open>resolveStageConfig\<close> returns \<open>undefined\<close> exactly when the stage map is absent
  or the stage's key is absent from it; \<open>isStageEnabled\<close> is false for \<open>undefined\<close>,
  true for the empty entry \<open>{}\<close>, and false for an entry only when \<open>enabled\<close> is
  explicitly \<open>false\<close>. So a stage with no entry is disabled, and a stage whose entry is
  \<open>{}\<close> is enabled.
\<close>

theorem resolveStageConfig_isStageEnabled:
  "(resolveStageConfig stgs stage = None
      \<longleftrightarrow> stgs = None \<or> (\<exists>st. stgs = Some st \<and> stage_key stage \<notin> dom st))
   \<and> \<not> isStageEnabled (None :: BaseStageConfig option)
   \<and> isStageEnabled (Some empty_stage_config)
   \<and> (\<forall>c :: BaseStageConfig. \<not> isStageEnabled (Some c) \<longleftrightarrow> enabled c = Some False)
   \<and> (\<forall>st :: BaseStageConfig stages. stage_key stage \<notin> dom st \<longrightarrow>
         \<not> isStageEnabled (resolveStageConfig (Some st) stage))
   \<and> (\<forall>st :: BaseStageConfig stages. st (stage_key stage) = Some empty_stage_config \<longrightarrow>
         isStageEnabled (resolveStageConfig (Some st) stage))"
  by (cases stage; cases stgs)
     (auto simp: resolveStageConfig_def isStageEnabled_def stage_key_def empty_stage_config_def
        split: option.splits)

theorem resolveStageConfig_isStageEnabled_witness:
  "resolveStageConfig (Some [''beforeRequest'' \<mapsto> empty_stage_config]) before_request
     = Some empty_stage_config
   \<and> resolveStageConfig (Some [''beforeRequest'' \<mapsto> empty_stage_config]) after_response = None
   \<and> isStageEnabled (resolveStageConfig (Some [''beforeRequest'' \<mapsto> empty_stage_config]) before_request)
   \<and> \<not> isStageEnabled (resolveStageConfig (Some [''beforeRequest'' \<mapsto> empty_stage_config]) after_response)
   \<and> \<not> isStageEnabled (Some (empty_stage_config\<lparr>enabled := Some False\<rparr>))"
  using resolveStageConfig_isStageEnabled
      [of "Some [''beforeRequest'' \<mapsto> empty_stage_config]" before_request]
    resolveStageConfig_isStageEnabled
      [of "Some [''beforeRequest'' \<mapsto> empty_stage_config]" after_response]
  by (simp add: stage_key_def resolveStageConfig_def)

section \<open>Gray Swan threshold precedence\<close>

text \<open>
  C8 (as amended). The stage-level threshold is used whenever it is present, the
  instance-level one otherwise; the value so chosen is returned clamped to \<open>[0, 1]\<close>
  when it is a finite number, and the default \<open>0.5\<close> is returned when it is absent or
  not finite. A present but non-finite stage-level value therefore yields the default,
  whatever the instance-level value is.
\<close>

theorem resolveGrayswanThreshold_precedence:
  "(stage_threshold stage = Some (Fin r) \<longrightarrow>
        resolveGrayswanThreshold cfg stage = clamp01 r)
   \<and> (\<forall>x. stage_threshold stage = Some x \<and> \<not> isFinite x \<longrightarrow>
        resolveGrayswanThreshold cfg stage = 1 / 2)
   \<and> (stage_threshold stage = None \<and> gs_violationThreshold cfg = Some (Fin r') \<longrightarrow>
        resolveGrayswanThreshold cfg stage = clamp01 r')
   \<and> (stage_threshold stage = None
        \<and> (gs_violationThreshold cfg = None
            \<or> (\<exists>x. gs_violationThreshold cfg = Some x \<and> \<not> isFinite x)) \<longrightarrow>
        resolveGrayswanThreshold cfg stage = 1 / 2)
   \<and> 0 \<le> resolveGrayswanThreshold cfg stage \<and> resolveGrayswanThreshold cfg stage \<le> 1"
  by (auto simp: resolveGrayswanThreshold_def stage_threshold_def clamp01_def
      GRAYSWAN_DEFAULT_THRESHOLD_def min_def max_def
      split: option.splits jsnum.splits)

theorem resolveGrayswanThreshold_precedence_witness:
  "resolveGrayswanThreshold (empty_grayswan_config\<lparr>gs_violationThreshold := Some (Fin (3 / 10))\<rparr>)
     (Some (empty_grayswan_stage\<lparr>violationThreshold := Some (Fin (7 / 10))\<rparr>)) = 7 / 10
   \<and> resolveGrayswanThreshold (empty_grayswan_config\<lparr>gs_violationThreshold := Some (Fin (3 / 10))\<rparr>)
     (Some empty_grayswan_stage) = 3 / 10
   \<and> resolveGrayswanThreshold (empty_grayswan_config\<lparr>gs_violationThreshold := Some (Fin (3 / 10))\<rparr>)
     (Some (empty_grayswan_stage\<lparr>violationThreshold := Some NaN\<rparr>)) = 1 / 2
   \<and> resolveGrayswanThreshold empty_grayswan_config None = 1 / 2"
  using resolveGrayswanThreshold_precedence
      [of "Some (empty_grayswan_stage\<lparr>violationThreshold := Some (Fin (7 / 10))\<rparr>)" "7 / 10"
          "empty_grayswan_config\<lparr>gs_violationThreshold := Some (Fin (3 / 10))\<rparr>" "3 / 10"]
    resolveGrayswanThreshold_precedence
      [of "Some empty_grayswan_stage" 0
          "empty_grayswan_config\<lparr>gs_violationThreshold := Some (Fin (3 / 10))\<rparr>" "3 / 10"]
    resolveGrayswanThreshold_precedence
      [of "Some (empty_grayswan_stage\<lparr>violationThreshold := Some NaN\<rparr>)" 0
          "empty_grayswan_config\<lparr>gs_violationThreshold := Some (Fin (3 / 10))\<rparr>" "3 / 10"]
    resolveGrayswanThreshold_precedence [of None 0 empty_grayswan_config 0]
  by (simp add: stage_threshold_def empty_grayswan_stage_def empty_grayswan_config_def
      clamp01_def)

text \<open>
  C8 as stated fails: a finite stage-level threshold of \<open>2\<close> resolves to \<open>1\<close>, not to the
  stage-level value; and with a stage-level NaN the instance-level \<open>0.3\<close> is not used.
\<close>

theorem resolveGrayswanThreshold_clamp_counterexample:
  "resolveGrayswanThreshold empty_grayswan_config
     (Some (empty_grayswan_stage\<lparr>violationThreshold := Some (Fin 2)\<rparr>)) = 1
   \<and> resolveGrayswanThreshold empty_grayswan_config
     (Some (empty_grayswan_stage\<lparr>violationThreshold := Some (Fin 2)\<rparr>)) \<noteq> 2
   \<and> resolveGrayswanThreshold (empty_grayswan_config\<lparr>gs_violationThreshold := Some (Fin (3 / 10))\<rparr>)
     (Some (empty_grayswan_stage\<lparr>violationThreshold := Some NaN\<rparr>)) = 1 / 2
   \<and> resolveGrayswanThreshold (empty_grayswan_config\<lparr>gs_violationThreshold := Some (Fin (3 / 10))\<rparr>)
     (Some (empty_grayswan_stage\<lparr>violationThreshold := Some NaN\<rparr>)) \<noteq> 3 / 10"
  by (simp add: resolveGrayswanThreshold_def empty_grayswan_stage_def empty_grayswan_config_def
      GRAYSWAN_DEFAULT_THRESHOLD_def)

section \<open>Response parsers\<close>


























section \<open>Stage handlers\<close>

subsection \<open>The helpers never throw\<close>





lemma assistant_text_Inr: "\<exists>t. assistant_text event = Inr t"
  by (auto simp: assistant_text_def extractTextFromContent_Inr bind_err_def Let_def
      split: option.splits)

lemma extractToolResultText_Inr: "\<exists>t. extractToolResultText js result = Inr t"
  by (auto simp: extractToolResultText_def extractTextFromContent_Inr bind_err_def Let_def
      try_stringify_def split: sum.splits)

subsection \<open>Evaluator failure: GPT-OSS-Safeguard\<close>







subsection \<open>Evaluator failure: Llama Guard\<close>






subsection \<open>Evaluator failure: Gray Swan\<close>







subsection \<open>The failure policy\<close>




subsection \<open>Empty focal content\<close>









end
